theory Spec2Isabelle
  imports Complex_Main "HOL-Library.Word"
begin

section \<open>APReader: channels and groups of a catman binary file\<close>

text \<open>
  A shallow embedding of \<^verbatim>\<open>apread/entries.py\<close>: the classes \<^verbatim>\<open>Channel\<close> and
  \<^verbatim>\<open>Group\<close>. Every exception the Python can raise is a value \<open>Inl e\<close> of the result;
  the shared \<^verbatim>\<open>BinaryReader\<close> is passed in and returned.
\<close>

subsection \<open>Exceptions\<close>

datatype error = OutOfBounds | AttributeError | IndexError | ZeroDivisionError

subsection \<open>Floating-point values\<close>

text \<open>
  A Python \<^verbatim>\<open>float\<close> or NumPy scalar is modelled by the real number it denotes, or by one of
  the three special values. Comparison is exact. Arithmetic on finite values is the exact
  real operation: the rounding of IEEE 754 to 53 (or 24) bits, overflow to infinity and the
  sign of zero are not modelled.
\<close>

datatype pyfloat = Fin real | PInf | NInf | NaN

text \<open>\<^verbatim>\<open>a < b\<close>: false whenever an operand is NaN.\<close>

fun flt :: "pyfloat \<Rightarrow> pyfloat \<Rightarrow> bool" where
  "flt NaN b = False"
| "flt a NaN = False"
| "flt (Fin x) (Fin y) = (x < y)"
| "flt (Fin x) PInf = True"
| "flt NInf (Fin y) = True"
| "flt NInf PInf = True"
| "flt a b = False"

fun fneg :: "pyfloat \<Rightarrow> pyfloat" where
  "fneg (Fin x) = Fin (- x)"
| "fneg PInf = NInf"
| "fneg NInf = PInf"
| "fneg NaN = NaN"

text \<open>\<^verbatim>\<open>a + b\<close>: infinities of opposite sign give NaN.\<close>

fun fadd :: "pyfloat \<Rightarrow> pyfloat \<Rightarrow> pyfloat" where
  "fadd NaN b = NaN"
| "fadd a NaN = NaN"
| "fadd (Fin x) (Fin y) = Fin (x + y)"
| "fadd PInf NInf = NaN"
| "fadd NInf PInf = NaN"
| "fadd (Fin x) b = b"
| "fadd a b = a"

definition fsub :: "pyfloat \<Rightarrow> pyfloat \<Rightarrow> pyfloat" where
  "fsub a b = fadd a (fneg b)"

text \<open>The sign of a value that is not NaN, as \<open>-1\<close>, \<open>0\<close> or \<open>1\<close>.\<close>

fun fsgn :: "pyfloat \<Rightarrow> int" where
  "fsgn (Fin x) = (if x < 0 then -1 else if x = 0 then 0 else 1)"
| "fsgn PInf = 1"
| "fsgn NInf = -1"
| "fsgn NaN = 0"

definition signed_inf :: "int \<Rightarrow> pyfloat" where
  "signed_inf s = (if s = 0 then NaN else if s < 0 then NInf else PInf)"

text \<open>\<^verbatim>\<open>a * b\<close>: zero times an infinity is NaN.\<close>

fun fmul :: "pyfloat \<Rightarrow> pyfloat \<Rightarrow> pyfloat" where
  "fmul NaN b = NaN"
| "fmul a NaN = NaN"
| "fmul (Fin x) (Fin y) = Fin (x * y)"
| "fmul a b = signed_inf (fsgn a * fsgn b)"

text \<open>
  IEEE division, as NumPy scalars and arrays do it: a zero divisor gives an infinity or NaN
  (with a warning), never an exception.
\<close>

fun fdiv :: "pyfloat \<Rightarrow> pyfloat \<Rightarrow> pyfloat" where
  "fdiv NaN b = NaN"
| "fdiv a NaN = NaN"
| "fdiv (Fin x) (Fin y) = (if y = 0 then signed_inf (fsgn (Fin x)) else Fin (x / y))"
| "fdiv (Fin x) b = Fin 0"
| "fdiv a (Fin y) = signed_inf (fsgn a * (if y < 0 then -1 else 1))"
| "fdiv a b = NaN"

text \<open>Division of Python floats: a zero divisor raises \<^verbatim>\<open>ZeroDivisionError\<close>.\<close>

definition py_truediv :: "pyfloat \<Rightarrow> pyfloat \<Rightarrow> error + pyfloat" where
  "py_truediv a b = (if b = Fin 0 then Inl ZeroDivisionError else Inr (fdiv a b))"

subsection \<open>The binary reader\<close>

text \<open>
  Modelled from the spec: the class \<^verbatim>\<open>BinaryReader\<close> of the module
  \<^verbatim>\<open>apread.binaryReader\<close>, which \<^verbatim>\<open>entries.py\<close> imports and whose code is missing. It
  is the spec's Cursor: it owns a byte buffer and a read position.
\<close>

record BinaryReader =
  buf :: "8 word list"
  pos :: nat

text \<open>
  A statement that uses the reader yields an exception, or a value and the reader after it.
  \<open>rbind\<close> runs two in sequence and stops at the first exception, \<open>ret\<close> yields a
  value and leaves the reader alone, \<open>raise\<close> yields an exception.
\<close>

type_synonym 'a rd = "BinaryReader \<Rightarrow> error + ('a \<times> BinaryReader)"

definition ret :: "'a \<Rightarrow> 'a rd" where
  "ret a r = Inr (a, r)"

definition rbind :: "'a rd \<Rightarrow> ('a \<Rightarrow> 'b rd) \<Rightarrow> 'b rd" where
  "rbind m f r = (case m r of Inl e \<Rightarrow> Inl e | Inr (a, r') \<Rightarrow> f a r')"

definition raise :: "error \<Rightarrow> 'a rd" where
  "raise e r = Inl e"

text \<open>
  Modelled from the spec: the read of \<open>n\<close> bytes under every typed read of the missing
  class. A read requires \<open>offset + width \<le> buffer length\<close> and fails with
  \<open>OutOfBounds\<close> otherwise; it advances the offset by exactly the width read.
\<close>

definition read_bytes :: "nat \<Rightarrow> (8 word list) rd" where
  "read_bytes n r =
     (if pos r + n \<le> length (buf r)
      then Inr (take n (drop (pos r) (buf r)), r\<lparr>pos := pos r + n\<rparr>)
      else Inl OutOfBounds)"

text \<open>Modelled from the spec: the missing method \<^verbatim>\<open>tell\<close>, the current offset.\<close>

definition tell :: "nat rd" where
  "tell r = Inr (pos r, r)"

text \<open>
  Modelled from the spec: the missing method \<^verbatim>\<open>seek\<close> to an absolute offset. Seeking
  backward is legal; seeking outside \<open>[0, buffer length]\<close> fails with \<open>OutOfBounds\<close>.
\<close>

definition seek :: "int \<Rightarrow> unit rd" where
  "seek p r =
     (if 0 \<le> p \<and> p \<le> int (length (buf r))
      then Inr ((), r\<lparr>pos := nat p\<rparr>)
      else Inl OutOfBounds)"

text \<open>Little-endian bytes as an unsigned number, and its two's-complement reading.\<close>

fun le_nat :: "8 word list \<Rightarrow> nat" where
  "le_nat [] = 0"
| "le_nat (b # bs) = unat b + 256 * le_nat bs"

definition to_signed :: "nat \<Rightarrow> nat \<Rightarrow> int" where
  "to_signed w n = (if n < 2 ^ (w - 1) then int n else int n - 2 ^ w)"

text \<open>\<open>2\<close> to an integer power, as a real.\<close>

definition pow2 :: "int \<Rightarrow> real" where
  "pow2 i = (if 0 \<le> i then 2 ^ nat i else 1 / 2 ^ nat (- i))"

text \<open>
  The value of an IEEE 754 bit pattern with \<open>eb\<close> exponent bits and \<open>mb\<close> mantissa bits
  (11 and 52 for a double, 8 and 23 for a float).
\<close>

definition decode_ieee :: "nat \<Rightarrow> nat \<Rightarrow> nat \<Rightarrow> pyfloat" where
  "decode_ieee eb mb n =
     (let s = n div 2 ^ (eb + mb);
          e = (n div 2 ^ mb) mod 2 ^ eb;
          m = n mod 2 ^ mb;
          bias = 2 ^ (eb - 1) - 1
      in if e = 2 ^ eb - 1 then (if m \<noteq> 0 then NaN else if s = 1 then NInf else PInf)
         else let v = (if e = 0 then real m * pow2 (1 - int bias - int mb)
                       else real (2 ^ mb + m) * pow2 (int e - int bias - int mb))
              in Fin (if s = 1 then - v else v))"

definition f64_of_bytes :: "8 word list \<Rightarrow> pyfloat" where
  "f64_of_bytes bs = decode_ieee 11 52 (le_nat bs)"

definition f32_of_bytes :: "8 word list \<Rightarrow> pyfloat" where
  "f32_of_bytes bs = decode_ieee 8 23 (le_nat bs)"

definition u16_of_bytes :: "8 word list \<Rightarrow> pyfloat" where
  "u16_of_bytes bs = Fin (real (le_nat bs))"

text \<open>
  Modelled from the spec: the missing typed reads, in the fixed little-endian layout.
  \<^verbatim>\<open>read_byte\<close> is the unsigned 8-bit read (the spec's \<open>uint8 npoi\<close>), \<^verbatim>\<open>read_char\<close>
  the signed one (\<open>int8 lmode\<close>), \<^verbatim>\<open>read_int16\<close> and \<^verbatim>\<open>read_int32\<close> the signed 16-bit
  and 32-bit reads, \<^verbatim>\<open>read_float\<close> and \<^verbatim>\<open>read_double\<close> the 4-byte and 8-byte floats.
\<close>

definition read_byte :: "int rd" where
  "read_byte = rbind (read_bytes 1) (\<lambda>bs. ret (int (le_nat bs)))"

definition read_char :: "int rd" where
  "read_char = rbind (read_bytes 1) (\<lambda>bs. ret (to_signed 8 (le_nat bs)))"

definition read_int16 :: "int rd" where
  "read_int16 = rbind (read_bytes 2) (\<lambda>bs. ret (to_signed 16 (le_nat bs)))"

definition read_int32 :: "int rd" where
  "read_int32 = rbind (read_bytes 4) (\<lambda>bs. ret (to_signed 32 (le_nat bs)))"

definition read_float :: "pyfloat rd" where
  "read_float = rbind (read_bytes 4) (\<lambda>bs. ret (f32_of_bytes bs))"

definition read_double :: "pyfloat rd" where
  "read_double = rbind (read_bytes 8) (\<lambda>bs. ret (f64_of_bytes bs))"

text \<open>
  Modelled from the spec: the missing method \<^verbatim>\<open>read_string\<close>.
  \<open>read_string n\<close> reads exactly \<open>n\<close> bytes, decodes them as text (one character per
  byte) and trims trailing control and pad bytes (those below the space character). The spec
  gives no meaning to a negative count; it is out of bounds here.
\<close>

definition is_pad :: "char \<Rightarrow> bool" where
  "is_pad c = (of_char c < (32::nat))"

definition trim_pad :: "string \<Rightarrow> string" where
  "trim_pad s = rev (dropWhile is_pad (rev s))"

definition decode_text :: "8 word list \<Rightarrow> string" where
  "decode_text bs = trim_pad (map (\<lambda>b. char_of (unat b)) bs)"

definition read_string :: "int \<Rightarrow> string rd" where
  "read_string n =
     (if n < 0 then raise OutOfBounds
      else rbind (read_bytes (nat n)) (\<lambda>bs. ret (decode_text bs)))"

text \<open>A loop that performs the same read \<open>n\<close> times and collects the results.\<close>

primrec repeat_read :: "nat \<Rightarrow> 'a rd \<Rightarrow> ('a list) rd" where
  "repeat_read 0 m = ret []"
| "repeat_read (Suc n) m = rbind m (\<lambda>x. rbind (repeat_read n m) (\<lambda>xs. ret (x # xs)))"

subsection \<open>File names\<close>

text \<open>
  \<^verbatim>\<open>os.path.basename\<close> and the root part of \<^verbatim>\<open>os.path.splitext\<close>, for POSIX paths:
  the extension starts at the last dot after the last slash, unless only dots precede it in
  the file name.
\<close>

definition rfind :: "char \<Rightarrow> string \<Rightarrow> int" where
  "rfind c p =
     (if c \<in> set p then int (length p) - 1 - int (length (takeWhile (\<lambda>x. x \<noteq> c) (rev p)))
      else - 1)"

definition basename :: "string \<Rightarrow> string" where
  "basename p = drop (nat (rfind CHR ''/'' p + 1)) p"

definition splitext_root :: "string \<Rightarrow> string" where
  "splitext_root p =
     (let sepIndex = rfind CHR ''/'' p; dotIndex = rfind CHR ''.'' p
      in if sepIndex < dotIndex
            \<and> list_ex (\<lambda>c. c \<noteq> CHR ''.'') (drop (nat (sepIndex + 1)) (take (nat dotIndex) p))
         then take (nat dotIndex) p else p)"

text \<open>\<^verbatim>\<open>s.replace(' ', "_")\<close>\<close>

definition replace_space :: "string \<Rightarrow> string" where
  "replace_space s = map (\<lambda>c. if c = CHR '' '' then CHR ''_'' else c) s"

subsection \<open>The extended header\<close>

record exthdr =
  T0 :: pyfloat
  dt :: pyfloat
  SensorType :: int
  SupplyVoltage :: int
  FiltChar :: int
  FiltFreq :: int
  TareVal :: pyfloat
  ZeroVal :: pyfloat
  MeasRange :: pyfloat
  InChar :: "pyfloat list"
  SerNo :: string
  PhysUnit :: string
  NativeUnit :: string
  Slot :: int
  SubSlot :: int
  AmpType :: int
  APType :: int
  kFactor :: pyfloat
  bFactor :: pyfloat
  MeasSig :: int
  AmpInput :: int
  HPFilt :: int
  OLImportInfo :: int
  ScaleType :: int
  SoftwareTareVal :: pyfloat
  WriteProtected :: int
  NominalRange :: pyfloat
  CLCFactor :: pyfloat
  ExportFormat :: int

text \<open>
  The fixed field sequence of \<^verbatim>\<open>Channel.readExtHeader\<close> (source lines 134 to 169),
  with the three bytes of padding before \<open>NominalRange\<close> and the seven reserved bytes at
  the end.
\<close>

definition read_exthdr_fields :: "exthdr rd" where
  "read_exthdr_fields =
     rbind read_double (\<lambda>t0.
     rbind read_double (\<lambda>dt'.
     rbind read_int16 (\<lambda>sensorType.
     rbind read_int16 (\<lambda>supplyVoltage.
     rbind read_int16 (\<lambda>filtChar.
     rbind read_int16 (\<lambda>filtFreq.
     rbind read_float (\<lambda>tareVal.
     rbind read_float (\<lambda>zeroVal.
     rbind read_float (\<lambda>measRange.
     rbind (repeat_read 4 read_float) (\<lambda>inChar.
     rbind (read_string 32) (\<lambda>serNo.
     rbind (read_string 8) (\<lambda>physUnit.
     rbind (read_string 8) (\<lambda>nativeUnit.
     rbind read_int16 (\<lambda>slot.
     rbind read_int16 (\<lambda>subSlot.
     rbind read_int16 (\<lambda>ampType.
     rbind read_int16 (\<lambda>apType.
     rbind read_float (\<lambda>kfactor.
     rbind read_float (\<lambda>bfactor.
     rbind read_int16 (\<lambda>measSig.
     rbind read_int16 (\<lambda>ampInput.
     rbind read_int16 (\<lambda>hpFilt.
     rbind read_byte (\<lambda>olImportInfo.
     rbind read_byte (\<lambda>scaleType.
     rbind read_float (\<lambda>softwareTareVal.
     rbind read_byte (\<lambda>writeProtected.
     rbind (read_string 3) (\<lambda>padding.
     rbind read_float (\<lambda>nominalRange.
     rbind read_float (\<lambda>clcFactor.
     rbind read_byte (\<lambda>exportFormat.
     rbind (read_string 7) (\<lambda>reserve.
     ret \<lparr>T0 = t0, dt = dt', SensorType = sensorType, SupplyVoltage = supplyVoltage,
          FiltChar = filtChar, FiltFreq = filtFreq, TareVal = tareVal, ZeroVal = zeroVal,
          MeasRange = measRange, InChar = inChar, SerNo = serNo, PhysUnit = physUnit,
          NativeUnit = nativeUnit, Slot = slot, SubSlot = subSlot, AmpType = ampType,
          APType = apType, kFactor = kfactor, bFactor = bfactor, MeasSig = measSig,
          AmpInput = ampInput, HPFilt = hpFilt, OLImportInfo = olImportInfo,
          ScaleType = scaleType, SoftwareTareVal = softwareTareVal,
          WriteProtected = writeProtected, NominalRange = nominalRange,
          CLCFactor = clcFactor, ExportFormat = exportFormat\<rparr>
     )))))))))))))))))))))))))))))))"

text \<open>
  \<^verbatim>\<open>Channel.readExtHeader\<close>: when the number of bytes read differs from the declared
  \<open>nHdrBytes\<close>, the reader is moved to \<open>pos0 + nHdrBytes\<close> and \<open>ExportFormat\<close> is
  set to 0. The warning it prints is not modelled.
\<close>

definition readExtHeader :: "int \<Rightarrow> exthdr rd" where
  "readExtHeader nHdrBytes =
     rbind tell (\<lambda>pos0.
     rbind read_exthdr_fields (\<lambda>h.
     rbind tell (\<lambda>posN.
     if int posN - int pos0 \<noteq> nHdrBytes
     then rbind (seek (int pos0 + nHdrBytes)) (\<lambda>_. ret (h\<lparr>ExportFormat := 0\<rparr>))
     else ret h)))"

text \<open>
  The precision in bytes: \<^verbatim>\<open>precDict = {0:8, 1:4, 2:2}\<close>, and 8 on a \<^verbatim>\<open>KeyError\<close>.
\<close>

definition precDict :: "int \<rightharpoonup> int" where
  "precDict = [0 \<mapsto> 8, 1 \<mapsto> 4, 2 \<mapsto> 2]"

definition resolve_precision :: "exthdr \<Rightarrow> int" where
  "resolve_precision h = (case precDict (ExportFormat h) of Some p \<Rightarrow> p | None \<Rightarrow> 8)"

subsection \<open>Channels\<close>

text \<open>
  The sample sequence of a channel is a Python list (slow path) or a NumPy array (fast path,
  or after filtering). Both hold the same kind of values; they differ in how a division by
  zero on an element behaves.
\<close>

datatype samples = PyList "pyfloat list" | NdArray "pyfloat list"

fun values_of :: "samples \<Rightarrow> pyfloat list" where
  "values_of (PyList xs) = xs"
| "values_of (NdArray xs) = xs"

text \<open>
  The attributes of a \<^verbatim>\<open>Channel\<close> object, in the order in which \<^verbatim>\<open>__init__\<close> assigns
  them. \<open>length\<close> of the source is \<open>length_ch\<close> here. \<open>data\<close> is \<open>None\<close> until
  \<^verbatim>\<open>readData\<close> assigns it. The reader is not a field: it is passed to the functions that
  use it. \<open>Time\<close> is the referenced time channel.
\<close>

datatype channel = Channel
  (fastload: bool)
  (verbose: bool)
  (filterData: bool)
  (Time: "channel option")
  (isTime: bool)
  (num: int)
  (length_ch: int)
  (Name: string)
  (fileName: string)
  (fullName: string)
  (unit: string)
  (comment: string)
  (format: int)
  (dw: int)
  (time: pyfloat)
  (nHdrBytes: int)
  (extHeader: exthdr)
  (precision: int)
  (lmode: int)
  (scale: int)
  (npoi: int)
  (formula: string)
  (sensorInfo: string)
  (broken: bool)
  (data: "samples option")

text \<open>\<^verbatim>\<open>Channel.__init__\<close> (source lines 41 to 113).\<close>

definition Channel_init :: "string \<Rightarrow> bool \<Rightarrow> bool \<Rightarrow> bool \<Rightarrow> channel rd" where
  "Channel_init fileName' verbose' filterData' fastload' =
     rbind read_int16 (\<lambda>num'.
     rbind read_int32 (\<lambda>length'.
     rbind read_int16 (\<lambda>nameLen.
     rbind (read_string nameLen) (\<lambda>Name'.
     rbind read_int16 (\<lambda>unitLen.
     rbind (read_string unitLen) (\<lambda>unit'.
     rbind read_int16 (\<lambda>commentLen.
     rbind (read_string commentLen) (\<lambda>comment'.
     rbind read_int16 (\<lambda>format'.
     rbind read_int16 (\<lambda>dw'.
     rbind read_double (\<lambda>time'.
     rbind read_int32 (\<lambda>nHdrBytes'.
     rbind (readExtHeader nHdrBytes') (\<lambda>extHeader'.
     rbind read_char (\<lambda>lmode'.
     rbind read_char (\<lambda>scale'.
     rbind read_byte (\<lambda>npoi'.
     rbind (repeat_read (nat npoi') read_double) (\<lambda>_.
     rbind read_int16 (\<lambda>_.
     rbind read_int16 (\<lambda>formulaLen.
     rbind (read_string formulaLen) (\<lambda>formula'.
     rbind read_int32 (\<lambda>sensorInfoLen.
     rbind (read_string sensorInfoLen) (\<lambda>sensorInfo'.
     ret (Channel fastload' verbose' filterData' None False num' length' Name'
            (splitext_root (basename fileName'))
            (fileName' @ ''.'' @ replace_space Name')
            unit' comment' format' dw' time' nHdrBytes' extHeader'
            (resolve_precision extHeader')
            lmode' scale' npoi' formula' sensorInfo' False None)
     ))))))))))))))))))))))"

text \<open>Assignment to \<^verbatim>\<open>self.data\<close>.\<close>

fun set_data :: "samples \<Rightarrow> channel \<Rightarrow> channel" where
  "set_data d (Channel a1 a2 a3 a4 a5 a6 a7 a8 a9 a10 a11 a12 a13 a14 a15 a16 a17 a18 a19 a20
                 a21 a22 a23 a24 a25) =
     Channel a1 a2 a3 a4 a5 a6 a7 a8 a9 a10 a11 a12 a13 a14 a15 a16 a17 a18 a19 a20
       a21 a22 a23 a24 (Some d)"

text \<open>
  \<^verbatim>\<open>np.fromfile(self.reader.buf, dtype, count)\<close>, a NumPy library function that reads
  from the position of the reader's underlying file: it returns \<open>count\<close> items of
  \<open>width\<close> bytes, or as many whole items as are left when there are fewer or when
  \<open>count\<close> is negative, and never raises for a short file. The position afterwards is
  taken to be the end of the last item returned.
\<close>

definition np_fromfile :: "nat \<Rightarrow> (8 word list \<Rightarrow> pyfloat) \<Rightarrow> int \<Rightarrow> (pyfloat list) rd" where
  "np_fromfile width dec count r =
     (let avail = (length (buf r) - pos r) div width;
          k = (if count < 0 then avail else min (nat count) avail)
      in Inr (map (\<lambda>i. dec (take width (drop (pos r + i * width) (buf r)))) [0..<k],
              r\<lparr>pos := pos r + k * width\<rparr>))"

text \<open>
  \<^verbatim>\<open>Channel.filter\<close> calls \<^verbatim>\<open>scipy.signal.lfilter\<close> with a moving average of 50
  coefficients. The library function is a parameter \<open>lfilter\<close> of the model; its result is
  a NumPy array. Without \<^verbatim>\<open>self.data\<close> the call raises \<^verbatim>\<open>AttributeError\<close>.
\<close>

definition filter_ch :: "(pyfloat list \<Rightarrow> pyfloat list) \<Rightarrow> channel \<Rightarrow> error + samples" where
  "filter_ch lfilter c =
     (case data c of None \<Rightarrow> Inl AttributeError
      | Some d \<Rightarrow> Inr (NdArray (lfilter (values_of d))))"

text \<open>
  The scaling of a two-byte sample: \<^verbatim>\<open>sf = (MaxValue - MinValue)/32767\<close> and
  \<^verbatim>\<open>v*sf + MinValue\<close>.
\<close>

definition scale_factor :: "pyfloat \<Rightarrow> pyfloat \<Rightarrow> pyfloat" where
  "scale_factor MinValue MaxValue = fdiv (fsub MaxValue MinValue) (Fin 32767)"

definition descale :: "pyfloat \<Rightarrow> pyfloat \<Rightarrow> pyfloat \<Rightarrow> pyfloat" where
  "descale sf MinValue v = fadd (fmul v sf) MinValue"

text \<open>The NumPy types \<^verbatim>\<open>f8\<close> and \<^verbatim>\<open>f4\<close>, by their width.\<close>

definition float_dtype :: "int \<Rightarrow> 8 word list \<Rightarrow> pyfloat" where
  "float_dtype p = (if p = 8 then f64_of_bytes else f32_of_bytes)"

text \<open>
  The body of \<^verbatim>\<open>Channel.readData\<close> before filtering (source lines 200 to 226): the
  channel with its data assigned. With \<open>fastload\<close> and a precision other than 8, 4 and 2
  nothing is assigned.
\<close>

definition read_body :: "channel \<Rightarrow> channel rd" where
  "read_body c =
     (if fastload c then
        (if precision c = 8 \<or> precision c = 4 then
           rbind (np_fromfile (nat (precision c)) (float_dtype (precision c)) (length_ch c))
                 (\<lambda>xs. ret (set_data (NdArray xs) c))
         else if precision c = 2 then
           rbind read_double (\<lambda>MinValue.
           rbind read_double (\<lambda>MaxValue.
           rbind (np_fromfile 2 u16_of_bytes (length_ch c)) (\<lambda>raw.
           ret (set_data
                  (NdArray (map (descale (scale_factor MinValue MaxValue) MinValue) raw)) c))))
         else ret c)
      else
        (if precision c = 8 then
           rbind (repeat_read (nat (length_ch c)) read_double) (\<lambda>xs. ret (set_data (PyList xs) c))
         else if precision c = 4 then
           rbind (repeat_read (nat (length_ch c)) read_float) (\<lambda>xs. ret (set_data (PyList xs) c))
         else if precision c = 2 then
           rbind read_double (\<lambda>MinValue.
           rbind read_double (\<lambda>MaxValue.
           rbind (repeat_read (nat (length_ch c))
                    (rbind read_int16 (\<lambda>v.
                       ret (descale (scale_factor MinValue MaxValue) MinValue (Fin (real_of_int v))))))
                 (\<lambda>xs. ret (set_data (PyList xs) c))))
         else ret (set_data (PyList []) c)))"

text \<open>\<^verbatim>\<open>Channel.readData\<close>: nothing happens for a broken channel.\<close>

definition readData :: "(pyfloat list \<Rightarrow> pyfloat list) \<Rightarrow> channel \<Rightarrow> channel rd" where
  "readData lfilter c =
     (if broken c then ret c
      else rbind (read_body c) (\<lambda>c'.
        if filterData c'
        then (case filter_ch lfilter c' of Inl e \<Rightarrow> raise e | Inr d \<Rightarrow> ret (set_data d c'))
        else ret c'))"

subsection \<open>Groups\<close>

text \<open>
  The float literals \<^verbatim>\<open>1e-3\<close> and \<^verbatim>\<open>1e-6\<close> denote the doubles nearest to the decimal
  fractions: \<open>0x1.0624dd2f1a9fcp-10\<close> and \<open>0x1.0c6f7a0b5ed8dp-20\<close>.
\<close>

definition float_1e_3 :: pyfloat where
  "float_1e_3 = Fin (1152921504606847 / 1152921504606846976)"

definition float_1e_6 :: pyfloat where
  "float_1e_6 = Fin (4722366482869645 / 4722366482869645213696)"

text \<open>The string \<^verbatim>\<open>'\<mu>s'\<close> of the source, in UTF-8.\<close>

definition mu_s :: string where
  "mu_s = [CHR 0xCE, CHR 0xBC, CHR ''s'']"

text \<open>
  The time unit and factor (source lines 447 to 457): three checks in sequence, each
  overwriting what the one before it chose.
\<close>

definition unit_fac :: "pyfloat \<Rightarrow> string \<times> pyfloat" where
  "unit_fac x =
     (let uf = (''s'', Fin 1);
          uf = (if flt x (Fin 1) then (''ms'', Fin 1000) else uf);
          uf = (if flt x float_1e_3 then (''ns'', Fin 1000000) else uf);
          uf = (if flt x float_1e_6 then (mu_s, Fin 1000000000) else uf)
      in uf)"

text \<open>
  The format \<^verbatim>\<open>:.3f\<close>: the value rounded to three decimals (ties to even), with at
  least one digit before the point.
\<close>

definition round_half_even :: "real \<Rightarrow> int" where
  "round_half_even y =
     (let f = \<lfloor>y\<rfloor>; r = y - of_int f
      in if r < 1 / 2 then f else if 1 / 2 < r then f + 1 else if even f then f else f + 1)"

definition digit_char :: "nat \<Rightarrow> char" where
  "digit_char d = char_of (48 + d)"

fun digits :: "nat \<Rightarrow> string" where
  "digits n = (if n < 10 then [digit_char n] else digits (n div 10) @ [digit_char (n mod 10)])"

fun fmt3f :: "pyfloat \<Rightarrow> string" where
  "fmt3f NaN = ''nan''"
| "fmt3f PInf = ''inf''"
| "fmt3f NInf = ''-inf''"
| "fmt3f (Fin x) =
     (let n = nat (round_half_even (\<bar>x\<bar> * 1000))
      in (if x < 0 then ''-'' else '''') @ digits (n div 1000) @ ''.''
         @ [digit_char (n mod 1000 div 100), digit_char (n mod 100 div 10), digit_char (n mod 10)])"

text \<open>
  \<^verbatim>\<open>d[i]\<close> on a list or a one-dimensional array: an index from \<open>0\<close> up to the number
  of samples selects from the front, one from \<open>-1\<close> down to minus that number from the
  back, and any other raises \<^verbatim>\<open>IndexError\<close>.
\<close>

definition getitem :: "samples \<Rightarrow> int \<Rightarrow> error + pyfloat" where
  "getitem d i =
     (if 0 \<le> i \<and> i < int (length (values_of d)) then Inr (values_of d ! nat i)
      else if i < 0 \<and> - int (length (values_of d)) \<le> i
        then Inr (values_of d ! nat (int (length (values_of d)) + i))
      else Inl IndexError)"

text \<open>
  \<^verbatim>\<open>1/x\<close> for an element \<open>x\<close> of the data: a Python float raises on zero, a NumPy
  scalar does not.
\<close>

fun reciprocal :: "samples \<Rightarrow> pyfloat \<Rightarrow> error + pyfloat" where
  "reciprocal (PyList xs) x = py_truediv (Fin 1) x"
| "reciprocal (NdArray xs) x = Inr (fdiv (Fin 1) x)"

record group =
  verbose_g :: bool
  Channels :: "channel list"
  ChannelX :: "channel option"
  Name_g :: string
  fileName_g :: string
  fullName_g :: string
  ChannelsY :: "channel list"
  intervalstr :: string
  interval :: pyfloat
  frequency :: pyfloat

text \<open>
  \<^verbatim>\<open>Group.__init__\<close> (source lines 413 to 461). \<^verbatim>\<open>self.Name\<close> is assigned only when
  a time channel was found, so reading it on line 436 raises \<^verbatim>\<open>AttributeError\<close>
  otherwise. The same error is raised on line 449 for a time channel without \<open>data\<close>, and
  \<^verbatim>\<open>IndexError\<close> when the data has no second element.
\<close>

definition Group_init :: "channel list \<Rightarrow> string \<Rightarrow> bool \<Rightarrow> error + group" where
  "Group_init channels fileName' verbose' =
     (let timeC = find isTime channels
      in case map_option Name timeC of
           None \<Rightarrow> Inl AttributeError
         | Some Name' \<Rightarrow>
             let tName = replace_space Name';
                 ChannelsY' = filter (\<lambda>chan. \<not> isTime chan) channels
             in case timeC of
                  None \<Rightarrow> Inl AttributeError
                | Some t \<Rightarrow>
                   (case data t of
                      None \<Rightarrow> Inl AttributeError
                    | Some d \<Rightarrow>
                       (case getitem d 1 of
                          Inl e \<Rightarrow> Inl e
                        | Inr x \<Rightarrow>
                           (case reciprocal d x of
                              Inl e \<Rightarrow> Inl e
                            | Inr f \<Rightarrow>
                               Inr \<lparr>verbose_g = verbose', Channels = channels, ChannelX = timeC,
                                    Name_g = Name',
                                    fileName_g = splitext_root (basename fileName'),
                                    fullName_g = fileName' @ ''.'' @ tName,
                                    ChannelsY = ChannelsY',
                                    intervalstr = fmt3f (fmul x (snd (unit_fac x))) @ fst (unit_fac x),
                                    interval = fdiv x (Fin 1000),
                                    frequency = f\<rparr>))))"

subsection \<open>Example values\<close>

text \<open>Concrete channels, buffers and samples on which the theorems below are evaluated.\<close>

definition zero_exthdr :: exthdr where
  "zero_exthdr = \<lparr>T0 = Fin 0, dt = Fin 0, SensorType = 0, SupplyVoltage = 0, FiltChar = 0,
     FiltFreq = 0, TareVal = Fin 0, ZeroVal = Fin 0, MeasRange = Fin 0,
     InChar = [Fin 0, Fin 0, Fin 0, Fin 0], SerNo = [], PhysUnit = [], NativeUnit = [],
     Slot = 0, SubSlot = 0, AmpType = 0, APType = 0, kFactor = Fin 0, bFactor = Fin 0,
     MeasSig = 0, AmpInput = 0, HPFilt = 0, OLImportInfo = 0, ScaleType = 0,
     SoftwareTareVal = Fin 0, WriteProtected = 0, NominalRange = Fin 0, CLCFactor = Fin 0,
     ExportFormat = 0\<rparr>"

text \<open>
  A channel as \<^verbatim>\<open>Channel.__init__\<close> leaves it (no \<open>Time\<close>, not broken, no filtering), with
  the given loading path, time flag, name, length, precision and data.
\<close>

definition example_channel ::
  "bool \<Rightarrow> bool \<Rightarrow> string \<Rightarrow> int \<Rightarrow> int \<Rightarrow> samples option \<Rightarrow> channel" where
  "example_channel fastload' isTime' name' length' precision' data' =
     Channel fastload' False False None isTime' 0 length' name' ''unknown''
       (''unknown.'' @ replace_space name') ''s'' [] 0 0 (Fin 0) 148 zero_exthdr precision'
       0 0 0 [] [] False data'"


text \<open>
  Two-byte bodies. The first: \<open>MinValue = 0.0\<close>, \<open>MaxValue = 32767.0\<close> and the raw sample
  \<open>0x8000\<close>. The second: \<open>MinValue = 0.0\<close>, \<open>MaxValue = 100.0\<close> and the raw samples
  \<open>0\<close>, \<open>32767\<close> and \<open>0xFFFF\<close>.
\<close>

definition body_8000 :: "8 word list" where
  "body_8000 = [0, 0, 0, 0, 0, 0, 0, 0,  0, 0, 0, 0, 0xC0, 0xFF, 0xDF, 0x40,  0x00, 0x80]"

definition body_0_100 :: "8 word list" where
  "body_0_100 = [0, 0, 0, 0, 0, 0, 0, 0,  0, 0, 0, 0, 0, 0, 0x59, 0x40,
                 0x00, 0x00,  0xFF, 0x7F,  0xFF, 0xFF]"

text \<open>The double written \<^verbatim>\<open>0.0005\<close>: \<open>0x1.0624dd2f1a9fcp-11\<close>.\<close>

definition float_5e_4 :: pyfloat where
  "float_5e_4 = Fin (1152921504606847 / 2305843009213693952)"
section \<open>Properties\<close>

subsection \<open>Evaluation rules\<close>


lemma repeat_read_numeral:
  "repeat_read (numeral k) m =
     rbind m (\<lambda>x. rbind (repeat_read (pred_numeral k) m) (\<lambda>xs. ret (x # xs)))"
  by (simp add: numeral_eq_Suc)

lemmas read_defs = read_double_def read_float_def read_int16_def read_int32_def read_byte_def
  read_char_def read_string_def

lemmas monad_defs = rbind_def ret_def raise_def read_bytes_def tell_def seek_def

lemmas text_defs = decode_text_def trim_pad_def is_pad_def char_of_def bit_Suc_0_iff
  replace_space_def digit_char_def

lemmas float_defs = f64_of_bytes_def f32_of_bytes_def u16_of_bytes_def decode_ieee_def pow2_def
  to_signed_def scale_factor_def descale_def fsub_def signed_inf_def

lemma set_data_sel [simp]:
  "fastload (set_data d c) = fastload c"
  "filterData (set_data d c) = filterData c"
  "broken (set_data d c) = broken c"
  "precision (set_data d c) = precision c"
  "length_ch (set_data d c) = length_ch c"
  "isTime (set_data d c) = isTime c"
  "Time (set_data d c) = Time c"
  "Name (set_data d c) = Name c"
  "data (set_data d c) = Some d"
  by (cases c; simp)+

lemma set_data_twice [simp]: "set_data d (set_data d' c) = set_data d c"
  by (cases c) simp

subsection \<open>The extended header\<close>

text \<open>The fixed field sequence is 148 bytes long: it is read iff that many bytes are left.\<close>

lemma read_exthdr_fields_ok:
  assumes "pos r + 148 \<le> length (buf r)"
  shows "\<exists>h. read_exthdr_fields r = Inr (h, r\<lparr>pos := pos r + 148\<rparr>)"
  using assms
  by (simp add: read_exthdr_fields_def read_defs rbind_def ret_def read_bytes_def
      repeat_read_numeral)

lemma read_exthdr_fields_short:
  assumes "\<not> pos r + 148 \<le> length (buf r)"
  shows "read_exthdr_fields r = Inl OutOfBounds"
  using assms
  by (simp add: read_exthdr_fields_def read_defs rbind_def ret_def read_bytes_def
      repeat_read_numeral)

lemma read_exthdr_fields_Inr:
  assumes "read_exthdr_fields r = Inr (h, r')"
  shows "pos r + 148 \<le> length (buf r) \<and> r' = r\<lparr>pos := pos r + 148\<rparr>"
proof (cases "pos r + 148 \<le> length (buf r)")
  case True
  with read_exthdr_fields_ok [OF True] assms show ?thesis by auto
next
  case False
  with read_exthdr_fields_short [OF False] assms show ?thesis by simp
qed

text \<open>
  What a successful \<open>readExtHeader\<close> has done: with the declared length 148 it has read
  the fields and nothing else; with any other declared length it has set \<open>ExportFormat\<close>
  to 0 and moved the reader to the declared end, which lies within the buffer.
\<close>

lemma readExtHeader_Inr:
  assumes "readExtHeader n r = Inr (h, r')"
  shows "pos r + 148 \<le> length (buf r)
         \<and> (if n = 148 then r' = r\<lparr>pos := pos r + 148\<rparr>
             else ExportFormat h = 0 \<and> r' = r\<lparr>pos := nat (int (pos r) + n)\<rparr>
                  \<and> 0 \<le> int (pos r) + n \<and> int (pos r) + n \<le> int (length (buf r)))"
proof -
  from assms obtain h0 rN where f: "read_exthdr_fields r = Inr (h0, rN)"
    by (auto simp: readExtHeader_def monad_defs split: sum.splits)
  from read_exthdr_fields_Inr [OF f]
  have len: "pos r + 148 \<le> length (buf r)" and rN: "rN = r\<lparr>pos := pos r + 148\<rparr>"
    by simp_all
  show ?thesis
    using assms f len
    by (auto simp: readExtHeader_def monad_defs rN split: if_splits)
qed




subsection \<open>Channel construction\<close>

text \<open>
  What \<^verbatim>\<open>Channel.__init__\<close> assigns besides the fields read from the stream: the stored
  file name is the stem of the argument, the full name is built from the argument itself, and
  the channel starts without time reference, time flag and data.
\<close>

lemma rbind_Inr_E:
  assumes "rbind m f r = Inr y"
  obtains a r' where "m r = Inr (a, r')" and "f a r' = Inr y"
  using assms by (auto simp: rbind_def split: sum.splits)

lemma Channel_init_names:
  assumes "Channel_init fn v fd fl r = Inr (c, r')"
  shows "fullName c = fn @ ''.'' @ replace_space (Name c)
         \<and> fileName c = splitext_root (basename fn)
         \<and> Time c = None \<and> isTime c = False \<and> data c = None \<and> broken c = False
         \<and> precision c = resolve_precision (extHeader c)"
  using assms unfolding Channel_init_def
  by (elim rbind_Inr_E) (auto simp: ret_def)

text \<open>When the caller passes a stem, the full name does start with the stored file name.\<close>

lemma Channel_init_stem:
  assumes "Channel_init fn v fd fl r = Inr (c, r')" and "splitext_root (basename fn) = fn"
  shows "fullName c = fileName c @ ''.'' @ replace_space (Name c)"
  using Channel_init_names [OF assms(1)] assms(2) by simp

text \<open>
  A channel whose declared extended-header length is not 148 has \<open>ExportFormat = 0\<close> and
  precision 8.
\<close>

lemma Channel_init_mismatch_precision:
  assumes "Channel_init fn v fd fl r = Inr (c, r')" and "nHdrBytes c \<noteq> 148"
  shows "ExportFormat (extHeader c) = 0 \<and> precision c = 8"
proof -
  from assms(1) obtain r1 r2 where "readExtHeader (nHdrBytes c) r1 = Inr (extHeader c, r2)"
    and "precision c = resolve_precision (extHeader c)"
    unfolding Channel_init_def
    by (elim rbind_Inr_E) (auto simp: ret_def)
  with assms(2) readExtHeader_Inr [of "nHdrBytes c" r1 "extHeader c" r2]
  show ?thesis
    by (simp add: resolve_precision_def precDict_def)
qed


subsection \<open>Reading the body\<close>




text \<open>
  The two-byte body on the fast path, with enough bytes left and no filtering: after the two
  doubles, each of the \<open>length\<close> raw samples is read as an unsigned number \<open>v\<close> and
  becomes \<open>v * sf + MinValue\<close>.
\<close>

lemma scale_factor_Fin: "scale_factor (Fin lo) (Fin hi) = Fin ((hi - lo) / 32767)"
  by (simp add: scale_factor_def fsub_def)

lemma descale_Fin: "descale (Fin sf) (Fin m) (Fin v) = Fin (v * sf + m)"
  by (simp add: descale_def)

lemma readData_fast_precision2:
  assumes "\<not> broken c" and "fastload c" and "\<not> filterData c" and "precision c = 2"
    and "0 \<le> length_ch c"
    and "pos r + 16 + 2 * nat (length_ch c) \<le> length (buf r)"
  shows "readData lf c r =
     Inr (set_data
            (NdArray (map (\<lambda>i. descale
                                 (scale_factor (f64_of_bytes (take 8 (drop (pos r) (buf r))))
                                               (f64_of_bytes (take 8 (drop (pos r + 8) (buf r)))))
                                 (f64_of_bytes (take 8 (drop (pos r) (buf r))))
                                 (u16_of_bytes (take 2 (drop (pos r + 16 + i * 2) (buf r)))))
                          [0..<nat (length_ch c)])) c,
          r\<lparr>pos := pos r + 16 + nat (length_ch c) * 2\<rparr>)"
proof -
  have "nat (length_ch c) \<le> (length (buf r) - (pos r + 16)) div 2"
    using assms(6) by simp
  then show ?thesis
    using assms
    by (simp add: readData_def read_body_def np_fromfile_def read_defs monad_defs Let_def
        min_absorb1 add.assoc comp_def)
qed

text \<open>
  One step of the slow path's loop reads the two bytes as a signed number. For a raw value
  from \<open>0x8000\<close> on, that is 65536 less than the unsigned reading.
\<close>

lemma read_sample_slow:
  assumes "pos r + 2 \<le> length (buf r)"
  shows "rbind read_int16 (\<lambda>v. ret (descale sf m (Fin (real_of_int v)))) r =
           Inr (descale sf m
                  (Fin (real_of_int (to_signed 16 (le_nat (take 2 (drop (pos r) (buf r))))))),
                r\<lparr>pos := pos r + 2\<rparr>)"
  using assms by (simp add: read_defs monad_defs)

lemma to_signed_high:
  assumes "2 ^ 15 \<le> n"
  shows "real_of_int (to_signed 16 n) = real n - 65536"
  using assms by (simp add: to_signed_def)

text \<open>
  C10 (the code departs from the claim). On the body \<open>MinValue = 0\<close>,
  \<open>MaxValue = 32767\<close>, raw sample \<open>0x8000\<close> the fast path reads the raw value as the
  unsigned 32768 and the slow path as the signed -32768: the two sample sequences differ.
\<close>

theorem readData_fast_slow_differ:
  "map_sum id (map_option values_of \<circ> data \<circ> fst)
     (readData id (example_channel True False ''Force'' 1 2 None) \<lparr>buf = body_8000, pos = 0\<rparr>)
     = Inr (Some [Fin 32768])
   \<and> map_sum id (map_option values_of \<circ> data \<circ> fst)
     (readData id (example_channel False False ''Force'' 1 2 None) \<lparr>buf = body_8000, pos = 0\<rparr>)
     = Inr (Some [Fin (- 32768)])"
  by (simp add: readData_def read_body_def np_fromfile_def example_channel_def body_8000_def
      read_defs monad_defs float_defs Let_def)

text \<open>
  C4 (the code departs from the claim). On the body \<open>MinValue = 0\<close>, \<open>MaxValue = 100\<close>
  with raw samples \<open>0\<close>, \<open>32767\<close> and \<open>0xFFFF\<close> the slow path decodes the first two to
  \<open>0\<close> and \<open>100\<close>, but reads the third as the signed \<open>-1\<close> and decodes it to
  \<open>-100/32767\<close>; as an unsigned value it is 65535 and \<open>v * sf + MinValue\<close> is
  \<open>6553500/32767\<close>, which is what the fast path gives.
\<close>

theorem readData_slow_path_signed:
  "map_sum id (data \<circ> fst)
     (readData id (example_channel False False ''Force'' 3 2 None) \<lparr>buf = body_0_100, pos = 0\<rparr>)
     = Inr (Some (PyList [Fin 0, Fin 100, Fin (- 100 / 32767)]))
   \<and> map_sum id (data \<circ> fst)
     (readData id (example_channel True False ''Force'' 3 2 None) \<lparr>buf = body_0_100, pos = 0\<rparr>)
     = Inr (Some (NdArray [Fin 0, Fin 100, Fin (6553500 / 32767)]))
   \<and> descale (scale_factor (Fin 0) (Fin 100)) (Fin 0) (u16_of_bytes [0xFF, 0xFF])
     = Fin (6553500 / 32767)"
  by (simp add: readData_def read_body_def np_fromfile_def example_channel_def body_0_100_def
      read_defs monad_defs float_defs Let_def repeat_read_numeral upt_rec)
subsection \<open>Group construction\<close>

text \<open>Without a channel flagged \<open>isTime\<close> the constructor raises on line 436.\<close>

lemma Group_init_no_time:
  assumes "find isTime channels = None"
  shows "Group_init channels fn v = Inl AttributeError"
  using assms by (simp add: Group_init_def)

text \<open>What a constructed group holds, and what made the construction succeed.\<close>

lemma Group_init_Inr:
  assumes "Group_init channels fn v = Inr g"
  obtains t d f where "find isTime channels = Some t" and "data t = Some d"
    and "2 \<le> length (values_of d)" and "reciprocal d (values_of d ! 1) = Inr f"
    and "g = \<lparr>verbose_g = v, Channels = channels, ChannelX = Some t, Name_g = Name t,
              fileName_g = splitext_root (basename fn),
              fullName_g = fn @ ''.'' @ replace_space (Name t),
              ChannelsY = filter (\<lambda>chan. \<not> isTime chan) channels,
              intervalstr = fmt3f (fmul (values_of d ! 1) (snd (unit_fac (values_of d ! 1))))
                            @ fst (unit_fac (values_of d ! 1)),
              interval = fdiv (values_of d ! 1) (Fin 1000),
              frequency = f\<rparr>"
  using assms
  by (auto simp: Group_init_def getitem_def Let_def
           split: option.splits sum.splits if_splits)

lemma Group_init_ok:
  assumes "find isTime channels = Some t" and "data t = Some d"
    and "2 \<le> length (values_of d)" and "reciprocal d (values_of d ! 1) = Inr f"
  shows "Group_init channels fn v =
           Inr \<lparr>verbose_g = v, Channels = channels, ChannelX = Some t, Name_g = Name t,
              fileName_g = splitext_root (basename fn),
              fullName_g = fn @ ''.'' @ replace_space (Name t),
              ChannelsY = filter (\<lambda>chan. \<not> isTime chan) channels,
              intervalstr = fmt3f (fmul (values_of d ! 1) (snd (unit_fac (values_of d ! 1))))
                            @ fst (unit_fac (values_of d ! 1)),
              interval = fdiv (values_of d ! 1) (Fin 1000),
              frequency = f\<rparr>"
  using assms by (simp add: Group_init_def getitem_def Let_def)



text \<open>
  C1 (the code departs from the claim). Constructing a group from no channels, or from one
  channel that is not flagged \<open>isTime\<close>, raises \<^verbatim>\<open>AttributeError\<close>: no group with an
  absent \<open>ChannelX\<close> is returned.
\<close>

theorem group_without_time_channel_raises:
  "Group_init [] ''unknown'' False = Inl AttributeError
   \<and> Group_init [example_channel True False ''Force'' 2 8 (Some (NdArray [Fin 1, Fin 2]))]
        ''unknown'' False = Inl AttributeError"
  by (simp add: Group_init_def example_channel_def)

text \<open>
  C2 (as amended). When the first channel flagged \<open>isTime\<close> has data with fewer than two
  samples, constructing a group raises \<^verbatim>\<open>IndexError\<close>: the access to the second sample
  is not guarded, and there is no marker for an unusable interval or frequency.
\<close>

theorem group_short_time_channel_raises:
  assumes "find isTime channels = Some t" and "data t = Some d"
    and "length (values_of d) < 2"
  shows "Group_init channels fn v = Inl IndexError"
  using assms by (simp add: Group_init_def getitem_def Let_def)

theorem group_short_time_channel_raises_witness:
  "Group_init [example_channel False False ''Force'' 0 8 (Some (PyList [])),
               example_channel False True ''Time'' 0 8 (Some (PyList []))] ''unknown'' True
     = Inl IndexError"
  using group_short_time_channel_raises
          [of "[example_channel False False ''Force'' 0 8 (Some (PyList [])),
                example_channel False True ''Time'' 0 8 (Some (PyList []))]"
              "example_channel False True ''Time'' 0 8 (Some (PyList []))" "PyList []"
              "''unknown''" True]
  by (simp add: example_channel_def)

text \<open>
  The claim as stated fails: a time channel with the single sample \<open>0.0\<close> makes the
  constructor raise.
\<close>

theorem group_short_time_channel_counterexample:
  "Group_init [example_channel True True ''Time'' 1 8 (Some (NdArray [Fin 0]))] ''unknown'' False
     = Inl IndexError"
  by (simp add: Group_init_def example_channel_def getitem_def)


text \<open>
  C6 (as amended). For a time channel whose second sample is the double \<open>0.0005\<close> the first
  two checks hold (\<open>0.0005 < 1\<close> and \<open>0.0005 < 1e-3\<close>), the third does not: the group is
  constructed with the unit \<^verbatim>\<open>ns\<close> and the factor \<open>1e6\<close>, and \<open>intervalstr\<close> is
  \<^verbatim>\<open>500.000ns\<close>.
\<close>

theorem group_interval_5e_4:
  assumes "find isTime channels = Some t" and "data t = Some d"
    and "2 \<le> length (values_of d)" and "values_of d ! 1 = float_5e_4"
  shows "\<exists>g. Group_init channels fn v = Inr g
           \<and> unit_fac (values_of d ! 1) = (''ns'', Fin 1000000)
           \<and> intervalstr g = ''500.000ns''"
proof -
  have r: "reciprocal d (values_of d ! 1) = Inr (fdiv (Fin 1) float_5e_4)"
    using assms(4) by (cases d) (simp_all add: py_truediv_def float_5e_4_def)
  have u: "unit_fac float_5e_4 = (''ns'', Fin 1000000)"
    by (simp add: unit_fac_def float_5e_4_def float_1e_3_def float_1e_6_def)
  have s: "fmt3f (fmul float_5e_4 (Fin 1000000)) = ''500.000''"
    by (simp add: float_5e_4_def round_half_even_def text_defs Let_def)
  show ?thesis
    using Group_init_ok [OF assms(1-3) r, of fn v] u s assms(4) by simp
qed

theorem group_interval_5e_4_witness:
  "map_sum id intervalstr
     (Group_init [example_channel False True ''Time'' 2 8 (Some (PyList [Fin 0, float_5e_4]))]
        ''unknown'' False) = Inr ''500.000ns''"
proof -
  let ?t = "example_channel False True ''Time'' 2 8 (Some (PyList [Fin 0, float_5e_4]))"
  have t: "find isTime [?t] = Some ?t" and d: "data ?t = Some (PyList [Fin 0, float_5e_4])"
    by (simp_all add: example_channel_def)
  from group_interval_5e_4 [OF t d, of "''unknown''" False]
  show ?thesis by auto
qed

text \<open>
  The claim as stated fails: for the samples \<open>0.0\<close>, \<open>0.0005\<close>, \<open>0.001\<close> the interval
  string is \<^verbatim>\<open>500.000ns\<close>, not \<^verbatim>\<open>0.500ms\<close>.
\<close>

theorem group_interval_5e_4_counterexample:
  "map_sum id intervalstr
     (Group_init [example_channel True True ''Time'' 3 8
                    (Some (NdArray [Fin 0, float_5e_4, float_1e_3]))] ''unknown'' False)
     = Inr ''500.000ns''"
  by (simp add: Group_init_def example_channel_def getitem_def unit_fac_def float_5e_4_def
      float_1e_3_def float_1e_6_def round_half_even_def text_defs Let_def)

text \<open>
  C8 (as amended). In a constructed group \<open>ChannelsY\<close> is the list of the given channels
  that are not flagged \<open>isTime\<close>, in their order, and \<open>ChannelX\<close> is the first flagged
  one. The constructor assigns no \<open>Time\<close> field: every channel in \<open>ChannelsY\<close> carries
  the \<open>Time\<close> it had before.
\<close>

theorem group_channelsY:
  assumes "Group_init channels fn v = Inr g"
  shows "ChannelsY g = filter (\<lambda>chan. \<not> isTime chan) channels
         \<and> map Time (ChannelsY g) = map Time (filter (\<lambda>chan. \<not> isTime chan) channels)
         \<and> ChannelX g = find isTime channels
         \<and> Channels g = channels"
  using assms by (elim Group_init_Inr) simp

theorem group_channelsY_witness:
  "map_sum id ChannelsY
     (Group_init [example_channel True False ''Force'' 2 8 (Some (NdArray [Fin 5, Fin 6])),
                  example_channel True True ''Time'' 2 8 (Some (NdArray [Fin 0, Fin 1])),
                  example_channel True False ''Way'' 2 8 (Some (NdArray [Fin 3, Fin 4]))]
        ''unknown'' False)
     = Inr [example_channel True False ''Force'' 2 8 (Some (NdArray [Fin 5, Fin 6])),
            example_channel True False ''Way'' 2 8 (Some (NdArray [Fin 3, Fin 4]))]"
proof -
  let ?f = "example_channel True False ''Force'' 2 8 (Some (NdArray [Fin 5, Fin 6]))"
  let ?t = "example_channel True True ''Time'' 2 8 (Some (NdArray [Fin 0, Fin 1]))"
  let ?w = "example_channel True False ''Way'' 2 8 (Some (NdArray [Fin 3, Fin 4]))"
  have t: "find isTime [?f, ?t, ?w] = Some ?t" and d: "data ?t = Some (NdArray [Fin 0, Fin 1])"
    by (simp_all add: example_channel_def)
  have "\<exists>g. Group_init [?f, ?t, ?w] ''unknown'' False = Inr g"
    using Group_init_ok [OF t d, of "Fin 1" "''unknown''" False] by simp
  then obtain g where g: "Group_init [?f, ?t, ?w] ''unknown'' False = Inr g" ..
  from group_channelsY [OF g]
  have "ChannelsY g = [?f, ?w]"
    by (simp add: example_channel_def)
  with g show ?thesis by simp
qed

text \<open>
  The claim as stated fails: a group over a time channel and a data channel as
  \<^verbatim>\<open>Channel.__init__\<close> leaves it is constructed with \<open>ChannelX\<close> present, and the
  \<open>Time\<close> field of its one channel in \<open>ChannelsY\<close> is still absent.
\<close>

theorem group_back_reference_counterexample:
  "map_sum id ChannelX
     (Group_init [example_channel True True ''Time'' 2 8 (Some (NdArray [Fin 0, Fin 1])),
                  example_channel True False ''Force'' 2 8 (Some (NdArray [Fin 5, Fin 6]))]
        ''unknown'' False)
     = Inr (Some (example_channel True True ''Time'' 2 8 (Some (NdArray [Fin 0, Fin 1]))))
   \<and> map_sum id (map Time \<circ> ChannelsY)
     (Group_init [example_channel True True ''Time'' 2 8 (Some (NdArray [Fin 0, Fin 1])),
                  example_channel True False ''Force'' 2 8 (Some (NdArray [Fin 5, Fin 6]))]
        ''unknown'' False)
     = Inr [None]"
  by (simp add: Group_init_def example_channel_def getitem_def)

end
